theory Spec2Isabelle
  imports Main "HOL-Library.Word" "HOL-Library.AList" "HOL-Library.Sublist"
begin

section \<open>Data model of \<open>util/http.go\<close>\<close>

text \<open>
  Go strings and byte slices are sequences of bytes; an Isabelle \<open>char\<close> is one byte.
  A \<open>[]byte\<close> result that may be \<open>nil\<close> is a \<open>bytes option\<close>, an \<open>error\<close> result that
  may be \<open>nil\<close> is an \<open>error option\<close>.
\<close>

type_synonym bytes = "char list"

text \<open>\<open>time.Duration\<close> is an \<open>int64\<close> counting nanoseconds.\<close>

type_synonym duration = "64 word"

text \<open>
  An \<open>error\<close> value is either built by \<open>fmt.Errorf\<close> in this file (its message), or comes
  out of a library call (transport, codec, multipart writer, file system).
\<close>

datatype error = Errorf string | LibError string

text \<open>
  An \<open>io.Reader\<close> as the helpers consume it: the bytes it yields, then the error that ends
  the stream (\<open>None\<close> for a clean \<open>io.EOF\<close>).
\<close>

type_synonym reader = "bytes \<times> error option"

record response =
  StatusCode :: int
  Body :: reader

datatype request = Get string | Post string string bytes

text \<open>
  \<open>http.Client{Timeout, Transport}\<close>: \<open>Transport\<close> is \<open>nil\<close> or \<open>&http.Transport{Proxy: p}\<close>.
\<close>

record 'p client =
  Timeout :: duration
  Transport :: "'p option"

text \<open>\<open>textproto.MIMEHeader\<close>, a \<open>map[string][]string\<close>, kept ordered by insertion.\<close>

type_synonym mime_header = "(string \<times> string list) list"

record MultipartFormField =
  Fieldname :: string
  Value :: bytes
  ContentType :: string
  Filename :: string

text \<open>
  The calls the helpers make on their collaborators, in the order they are made. A call is
  recorded when it is made, whether or not it succeeds.
\<close>

datatype 'p event =
    HttpDo "'p client" request
  | BodyClose
  | JsonDecode bytes
  | XmlDecode bytes
  | ReadAll
  | OsCreate string
  | FileCopy string bytes
  | FileClose string
  | CreatePart mime_header
  | PartWrite bytes
  | MultipartClose

text \<open>
  The package state: the two globals \<open>TimeOut\<close> and \<open>Proxy\<close>, and what the helpers act on:
  the file system and the record of calls made so far.
\<close>

record 'p state =
  TimeOut :: duration
  Proxy :: "'p option"
  files :: "string \<rightharpoonup> bytes"
  trace :: "'p event list"

text \<open>\<open>var TimeOut time.Duration = 60 * time.Second\<close>; \<open>var Proxy\<close> starts \<open>nil\<close>.\<close>

definition Second :: duration where
  "Second = 1000000000"

definition init_state :: "'p state" where
  "init_state = \<lparr>TimeOut = 60 * Second, Proxy = None, files = Map.empty, trace = []\<rparr>"

text \<open>
  The collaborators of the package, outside it: the HTTP transport, the JSON and XML codecs
  (\<open>'o\<close> the objects encoded, \<open>'v\<close> the targets decoded into), the multipart writer with its
  buffer (\<open>'mw\<close>), and the file system's failures.
\<close>

record ('p, 'o, 'v, 'mw) world =
  http_do :: "'p client \<Rightarrow> request \<Rightarrow> error + response"
  json_encode :: "bool \<Rightarrow> 'o \<Rightarrow> error + bytes"
  xml_encode :: "'o \<Rightarrow> error + bytes"
  json_decode :: "reader \<Rightarrow> 'v \<Rightarrow> 'v \<times> error option"
  xml_decode :: "reader \<Rightarrow> 'v \<Rightarrow> 'v \<times> error option"
  mp_new :: "'mw"
  mp_create_part :: "'mw \<Rightarrow> mime_header \<Rightarrow> error + 'mw"
  mp_write :: "'mw \<Rightarrow> bytes \<Rightarrow> error + 'mw"
  mp_content_type :: "'mw \<Rightarrow> string"
  mp_close :: "'mw \<Rightarrow> 'mw"
  mp_bytes :: "'mw \<Rightarrow> bytes"
  os_create :: "string \<Rightarrow> error option"
  file_write :: "string \<Rightarrow> bytes \<Rightarrow> bytes \<times> error option"

section \<open>Configuration store and client factory\<close>

definition SetTimeOut :: "duration \<Rightarrow> 'p state \<Rightarrow> 'p state" where
  "SetTimeOut d s = s\<lparr>TimeOut := d\<rparr>"

definition SetProxy :: "'p option \<Rightarrow> 'p state \<Rightarrow> 'p state" where
  "SetProxy p s = s\<lparr>Proxy := p\<rparr>"

definition httpClient :: "'p state \<Rightarrow> 'p client" where
  "httpClient s =
     (let cli = \<lparr>Timeout = TimeOut s, Transport = None\<rparr>
      in if Proxy s \<noteq> None then cli\<lparr>Transport := Proxy s\<rparr> else cli)"

definition emit :: "'p event list \<Rightarrow> 'p state \<Rightarrow> 'p state" where
  "emit evs s = s\<lparr>trace := trace s @ evs\<rparr>"

text \<open>The calls made between a state and a later one.\<close>

definition new_events :: "'p state \<Rightarrow> 'p state \<Rightarrow> 'p event list" where
  "new_events s s' = drop (length (trace s)) (trace s')"

section \<open>Formatting\<close>

text \<open>Decimal digits, as \<open>%d\<close> and \<open>%v\<close> print a Go \<open>int\<close>.\<close>

fun itoa_nat :: "nat \<Rightarrow> string" where
  "itoa_nat n =
     (if n < 10 then [char_of (48 + n)] else itoa_nat (n div 10) @ [char_of (48 + n mod 10)])"

declare itoa_nat.simps [simp del]

definition itoa :: "int \<Rightarrow> string" where
  "itoa i = (if i < 0 then CHR ''-'' # itoa_nat (nat (- i)) else itoa_nat (nat i))"

text \<open>\<open>strings.Join(elems, sep)\<close>.\<close>

fun Join :: "string list \<Rightarrow> string \<Rightarrow> string" where
  "Join [] sep = []"
| "Join [x] sep = x"
| "Join (x # y # ys) sep = x @ sep @ Join (y # ys) sep"

text \<open>
  \<open>h.Set(key, value)\<close> on a \<open>textproto.MIMEHeader\<close>: the key gets the one value. The two
  keys this package sets are already in canonical form.
\<close>

definition header_Set :: "string \<Rightarrow> string \<Rightarrow> mime_header \<Rightarrow> mime_header" where
  "header_Set key val h = AList.update key [val] h"

text \<open>\<open>ioutil.ReadAll(r)\<close>: the bytes read (never \<open>nil\<close>) and the error that stopped it.\<close>

definition ReadAll_body :: "reader \<Rightarrow> bytes option \<times> error option" where
  "ReadAll_body r = (Some (fst r), snd r)"

section \<open>Request helpers\<close>

definition GetJson ::
  "('p, 'o, 'v, 'mw) world \<Rightarrow> string \<Rightarrow> 'v \<Rightarrow> 'p state \<Rightarrow> (error option \<times> 'v) \<times> 'p state" where
  "GetJson w uri v s =
     (let cli = httpClient s; s1 = emit [HttpDo cli (Get uri)] s in
      case http_do w cli (Get uri) of
        Inl err \<Rightarrow> ((Some err, v), s1)
      | Inr r \<Rightarrow>
          (let (v', err) = json_decode w (Body r) v
           in ((err, v'), emit [JsonDecode (fst (Body r)), BodyClose] s1)))"

definition GetXml ::
  "('p, 'o, 'v, 'mw) world \<Rightarrow> string \<Rightarrow> 'v \<Rightarrow> 'p state \<Rightarrow> (error option \<times> 'v) \<times> 'p state" where
  "GetXml w uri v s =
     (let cli = httpClient s; s1 = emit [HttpDo cli (Get uri)] s in
      case http_do w cli (Get uri) of
        Inl err \<Rightarrow> ((Some err, v), s1)
      | Inr r \<Rightarrow>
          (let (v', err) = xml_decode w (Body r) v
           in ((err, v'), emit [XmlDecode (fst (Body r)), BodyClose] s1)))"

definition GetBody ::
  "('p, 'o, 'v, 'mw) world \<Rightarrow> string \<Rightarrow> 'p state
     \<Rightarrow> (bytes option \<times> error option) \<times> 'p state" where
  "GetBody w uri s =
     (let cli = httpClient s; s1 = emit [HttpDo cli (Get uri)] s in
      case http_do w cli (Get uri) of
        Inl err \<Rightarrow> ((None, Some err), s1)
      | Inr resp \<Rightarrow>
          if StatusCode resp \<noteq> 200 then
            ((None, Some (Errorf (''http get err: uri='' @ uri @ '' , statusCode=''
                                    @ itoa (StatusCode resp)))),
             emit [BodyClose] s1)
          else (ReadAll_body (Body resp), emit [ReadAll, BodyClose] s1))"

definition PostJson ::
  "('p, 'o, 'v, 'mw) world \<Rightarrow> string \<Rightarrow> 'o \<Rightarrow> 'p state
     \<Rightarrow> (bytes option \<times> error option) \<times> 'p state" where
  "PostJson w uri obj s =
     (case json_encode w False obj of
        Inl err \<Rightarrow> ((None, Some err), s)
      | Inr buf \<Rightarrow>
          (let cli = httpClient s;
               req = Post uri ''application/json;charset=utf-8'' buf;
               s1 = emit [HttpDo cli req] s in
           case http_do w cli req of
             Inl err \<Rightarrow> ((None, Some err), s1)
           | Inr resp \<Rightarrow>
               if StatusCode resp \<noteq> 200 then
                 ((None, Some (Errorf (''http post error : uri='' @ uri @ '' , statusCode=''
                                         @ itoa (StatusCode resp)))),
                  emit [BodyClose] s1)
               else (ReadAll_body (Body resp), emit [ReadAll, BodyClose] s1)))"

text \<open>
  \<open>PostJsonPtr\<close> leaves the encoder's HTML escaping at its default, which is on; the
  variadic \<open>contentType\<close> is the list of the extra arguments.
\<close>

definition PostJsonPtr ::
  "('p, 'o, 'v, 'mw) world \<Rightarrow> string \<Rightarrow> 'o \<Rightarrow> 'v \<Rightarrow> string list \<Rightarrow> 'p state
     \<Rightarrow> (error option \<times> 'v) \<times> 'p state" where
  "PostJsonPtr w uri obj result contentType s =
     (case json_encode w True obj of
        Inl err \<Rightarrow> ((Some err, result), s)
      | Inr buf \<Rightarrow>
          (let ct = (if length contentType > 0 then Join contentType '';''
                     else ''application/json;charset=utf-8'');
               cli = httpClient s;
               req = Post uri ct buf;
               s1 = emit [HttpDo cli req] s in
           case http_do w cli req of
             Inl err \<Rightarrow> ((Some err, result), s1)
           | Inr resp \<Rightarrow>
               if StatusCode resp \<noteq> 200 then
                 ((Some (Errorf (''http post error : uri='' @ uri @ '' , statusCode=''
                                   @ itoa (StatusCode resp))), result),
                  emit [BodyClose] s1)
               else
                 (let (result', err) = json_decode w (Body resp) result
                  in ((err, result'), emit [JsonDecode (fst (Body resp)), BodyClose] s1))))"

definition PostXmlPtr ::
  "('p, 'o, 'v, 'mw) world \<Rightarrow> string \<Rightarrow> 'o \<Rightarrow> 'v \<Rightarrow> 'p state
     \<Rightarrow> (error option \<times> 'v) \<times> 'p state" where
  "PostXmlPtr w uri obj result s =
     (case xml_encode w obj of
        Inl err \<Rightarrow> ((Some err, result), s)
      | Inr buf \<Rightarrow>
          (let cli = httpClient s;
               req = Post uri ''application/xml;charset=utf-8'' buf;
               s1 = emit [HttpDo cli req] s in
           case http_do w cli req of
             Inl err \<Rightarrow> ((Some err, result), s1)
           | Inr resp \<Rightarrow>
               if StatusCode resp \<noteq> 200 then
                 ((Some (Errorf (''http post error : uri='' @ uri @ '' , statusCode=''
                                   @ itoa (StatusCode resp))), result),
                  emit [BodyClose] s1)
               else
                 (let (result', err) = xml_decode w (Body resp) result
                  in ((err, result'), emit [XmlDecode (fst (Body resp)), BodyClose] s1))))"

text \<open>
  The header \<open>PostMultipartForm\<close> builds for one field: \<open>Content-Disposition\<close> from
  \<open>fmt.Sprintf\<close> with the field's name, file name and \<open>len(field.Value)\<close>, then
  \<open>Content-Type\<close>.
\<close>

definition field_header :: "MultipartFormField \<Rightarrow> mime_header" where
  \<open>field_header field =
     header_Set ''Content-Type'' (ContentType field)
       (header_Set ''Content-Disposition''
          (''form-data; name="'' @ Fieldname field @ ''"; filename="'' @ Filename field
             @ ''"; filelength='' @ itoa (int (length (Value field))))
          [])\<close>

text \<open>
  The loop over the fields: \<open>CreatePart\<close>, then \<open>io.Copy\<close> of the value into the part; either
  failing ends the function with that error.
\<close>

fun write_fields ::
  "('p, 'o, 'v, 'mw) world \<Rightarrow> 'mw \<Rightarrow> MultipartFormField list \<Rightarrow> 'p state
     \<Rightarrow> (error + 'mw) \<times> 'p state" where
  "write_fields w mw [] s = (Inr mw, s)"
| "write_fields w mw (field # rest) s =
     (let h = field_header field; s1 = emit [CreatePart h] s in
      case mp_create_part w mw h of
        Inl e \<Rightarrow> (Inl e, s1)
      | Inr mw1 \<Rightarrow>
          (let s2 = emit [PartWrite (Value field)] s1 in
           case mp_write w mw1 (Value field) of
             Inl e \<Rightarrow> (Inl e, s2)
           | Inr mw2 \<Rightarrow> write_fields w mw2 rest s2))"

text \<open>
  After the loop the named result \<open>err\<close> is \<open>nil\<close>; the branch for a status other than 200
  returns \<open>nil, err\<close>.
\<close>

definition PostMultipartForm ::
  "('p, 'o, 'v, 'mw) world \<Rightarrow> MultipartFormField list \<Rightarrow> string \<Rightarrow> 'p state
     \<Rightarrow> (bytes option \<times> error option) \<times> 'p state" where
  "PostMultipartForm w flds uri s =
     (case write_fields w (mp_new w) flds s of
        (Inl e, s1) \<Rightarrow> ((None, Some e), s1)
      | (Inr mw, s1) \<Rightarrow>
          (let err = None;
               contentType = mp_content_type w mw;
               s2 = emit [MultipartClose] s1;
               cli = httpClient s2;
               req = Post uri contentType (mp_bytes w (mp_close w mw));
               s3 = emit [HttpDo cli req] s2 in
           case http_do w cli req of
             Inl e \<Rightarrow> ((None, Some e), s3)
           | Inr resp \<Rightarrow>
               if StatusCode resp \<noteq> 200 then ((None, err), emit [BodyClose] s3)
               else (ReadAll_body (Body resp), emit [ReadAll, BodyClose] s3)))"

definition PostFileBytes ::
  "('p, 'o, 'v, 'mw) world \<Rightarrow> string \<Rightarrow> string \<Rightarrow> string \<Rightarrow> bytes \<Rightarrow> string \<Rightarrow> 'p state
     \<Rightarrow> (bytes option \<times> error option) \<times> 'p state" where
  "PostFileBytes w fieldname filename contentType data uri s =
     (let field_list = [\<lparr>Fieldname = fieldname, Value = data,
                          ContentType = contentType, Filename = filename\<rparr>]
      in PostMultipartForm w field_list uri s)"

text \<open>
  \<open>GetFile\<close>: \<open>os.Create\<close> makes the file or truncates it; \<open>io.Copy\<close> then writes what the
  file system accepts of the body and returns the write error, else the read error.
\<close>

definition GetFile ::
  "('p, 'o, 'v, 'mw) world \<Rightarrow> string \<Rightarrow> string \<Rightarrow> 'p state \<Rightarrow> error option \<times> 'p state" where
  "GetFile w filename uri s =
     (let cli = httpClient s; s1 = emit [HttpDo cli (Get uri)] s in
      case http_do w cli (Get uri) of
        Inl err \<Rightarrow> (Some err, s1)
      | Inr resp \<Rightarrow>
          (let s2 = emit [OsCreate filename] s1 in
           case os_create w filename of
             Some err \<Rightarrow> (Some err, emit [BodyClose] s2)
           | None \<Rightarrow>
               (let s3 = s2\<lparr>files := (files s2)(filename \<mapsto> [])\<rparr>;
                    (written, werr) = file_write w filename (fst (Body resp));
                    s4 = (emit [FileCopy filename (fst (Body resp))] s3)
                           \<lparr>files := (files s3)(filename \<mapsto> written)\<rparr>;
                    err = (case werr of Some e \<Rightarrow> Some e | None \<Rightarrow> snd (Body resp))
                in (err, emit [FileClose filename, BodyClose] s4))))"

section \<open>Observations on the record of calls\<close>

fun is_send :: "'p event \<Rightarrow> bool" where
  "is_send (HttpDo c r) = True"
| "is_send e = False"

fun is_decode :: "'p event \<Rightarrow> bool" where
  "is_decode (JsonDecode b) = True"
| "is_decode (XmlDecode b) = True"
| "is_decode e = False"

fun is_part_call :: "'p event \<Rightarrow> bool" where
  "is_part_call (CreatePart h) = True"
| "is_part_call (PartWrite b) = True"
| "is_part_call e = False"

text \<open>No \<open>os.Create\<close> in a list of calls before its first HTTP request.\<close>

fun create_after_send :: "'p event list \<Rightarrow> bool" where
  "create_after_send [] = True"
| "create_after_send (HttpDo c r # es) = True"
| "create_after_send (OsCreate f # es) = False"
| "create_after_send (e # es) = create_after_send es"

text \<open>The two calls \<open>PostMultipartForm\<close> makes on the multipart writer for one field.\<close>

definition part_calls :: "MultipartFormField \<Rightarrow> 'p event list" where
  "part_calls field = [CreatePart (field_header field), PartWrite (Value field)]"

section \<open>A small world to run the helpers in\<close>

text \<open>
  Every request is answered with the given status and the body \<open>ok\<close>; the codecs are the
  identity on strings; the multipart writer appends to its buffer with the boundary \<open>B\<close>;
  the file system accepts everything.
\<close>

definition demo_world :: "int \<Rightarrow> (unit, string, string, bytes) world" where
  "demo_world code =
     \<lparr>http_do = (\<lambda>cli req. Inr \<lparr>StatusCode = code, Body = (''ok'', None)\<rparr>),
      json_encode = (\<lambda>esc obj. Inr obj),
      xml_encode = (\<lambda>obj. Inr obj),
      json_decode = (\<lambda>r v. (fst r, snd r)),
      xml_decode = (\<lambda>r v. (fst r, snd r)),
      mp_new = [],
      mp_create_part = (\<lambda>mw h. Inr (mw @ ''--B;'')),
      mp_write = (\<lambda>mw b. Inr (mw @ b)),
      mp_content_type = (\<lambda>mw. ''multipart/form-data; boundary=B''),
      mp_close = (\<lambda>mw. mw @ ''--B--''),
      mp_bytes = (\<lambda>mw. mw),
      os_create = (\<lambda>f. None),
      file_write = (\<lambda>f b. (b, None))\<rparr>"

definition demo_field :: MultipartFormField where
  "demo_field = \<lparr>Fieldname = ''f1'', Value = ''hi'', ContentType = ''text/plain'',
                  Filename = ''a.txt''\<rparr>"

text \<open>The same world with a multipart writer that cannot start a part.\<close>

definition full_writer_world :: "(unit, string, string, bytes) world" where
  "full_writer_world = (demo_world 200)\<lparr>mp_create_part := \<lambda>mw h. Inl (LibError ''full'')\<rparr>"

text \<open>
  A world whose multipart writer shows what it is given: a part starts with the boundary
  and the header lines in brackets, the bytes written follow.
\<close>

definition render_world :: "(unit, string, string, bytes) world" where
  "render_world =
     (demo_world 200)
       \<lparr>mp_create_part :=
          \<lambda>mw h. Inr (mw @ ''--B['' @ concat (map (\<lambda>(k, vs). k @ '': '' @ concat vs @ '';'') h)
                        @ '']'')\<rparr>"

text \<open>The same, but the copy of the value \<open>yo!\<close> into its part fails.\<close>

definition short_write_world :: "(unit, string, string, bytes) world" where
  "short_write_world =
     render_world
       \<lparr>mp_write := \<lambda>mw b. if b = ''yo!'' then Inl (LibError ''short write'')
                           else Inr (mw @ b)\<rparr>"

text \<open>A second field, not a file: its file name is empty.\<close>

definition demo_field2 :: MultipartFormField where
  "demo_field2 = \<lparr>Fieldname = ''f2'', Value = ''yo!'', ContentType = ''text/plain'',
                   Filename = []\<rparr>"

section \<open>The multipart encoding as the specification words it\<close>

text \<open>
  The specification: for each field in the given ordered sequence, emit a part with header
  \<open>Content-Disposition: form-data; name="<name>"; filename="<filename>";
  filelength=<byte length>\<close> and \<open>Content-Type: <contentType>\<close>, followed by the raw field
  bytes; if constructing any part fails, abort immediately with that error. These
  definitions follow those words on the multipart writer itself, independently of the
  loop of \<open>PostMultipartForm\<close>, to compare the two.
\<close>

definition spec_part_header :: "MultipartFormField \<Rightarrow> mime_header" where
  \<open>spec_part_header field =
     [(''Content-Disposition'',
       [''form-data; name="'' @ Fieldname field @ ''"; filename="'' @ Filename field
          @ ''"; filelength='' @ itoa (int (length (Value field)))]),
      (''Content-Type'', [ContentType field])]\<close>

text \<open>One more part on a writer, unless an earlier part already failed.\<close>

definition spec_add_part ::
  "('p, 'o, 'v, 'mw) world \<Rightarrow> error + 'mw \<Rightarrow> MultipartFormField \<Rightarrow> error + 'mw" where
  "spec_add_part w acc field =
     (case acc of
        Inl e \<Rightarrow> Inl e
      | Inr mw \<Rightarrow>
          (case mp_create_part w mw (spec_part_header field) of
             Inl e \<Rightarrow> Inl e
           | Inr mw1 \<Rightarrow> mp_write w mw1 (Value field)))"

text \<open>The parts of all the fields, in their order, on a new writer.\<close>

definition spec_encode_parts ::
  "('p, 'o, 'v, 'mw) world \<Rightarrow> MultipartFormField list \<Rightarrow> error + 'mw" where
  "spec_encode_parts w flds = foldl (spec_add_part w) (Inr (mp_new w)) flds"

section \<open>Basic facts\<close>

lemma trace_emit [simp]: "trace (emit evs s) = trace s @ evs"
  by (simp add: emit_def)

lemma files_emit [simp]: "files (emit evs s) = files s"
  by (simp add: emit_def)

lemma httpClient_emit [simp]: "httpClient (emit evs s) = httpClient s"
  by (simp add: emit_def httpClient_def Let_def)

lemma emit_emit [simp]: "emit evs2 (emit evs1 s) = emit (evs1 @ evs2) s"
  by (simp add: emit_def)

lemma emit_Nil [simp]: "emit [] s = s"
  by (simp add: emit_def)

lemma new_events_emit [simp]: "new_events s (emit evs s) = evs"
  by (simp add: new_events_def)

lemma new_events_same [simp]: "new_events s s = []"
  by (simp add: new_events_def)

lemma itoa_404: "itoa 404 = ''404''"
  by code_simp

lemma itoa_2: "itoa 2 = ''2''"
  by code_simp

lemma GetJson_any_status:
  assumes "http_do w (httpClient s) (Get uri) = Inr resp"
  shows "GetJson w uri v s =
           ((snd (json_decode w (Body resp) v), fst (json_decode w (Body resp) v)),
            emit [HttpDo (httpClient s) (Get uri), JsonDecode (fst (Body resp)), BodyClose] s)"
  using assms by (simp add: GetJson_def Let_def split: prod.split)

lemma GetXml_any_status:
  assumes "http_do w (httpClient s) (Get uri) = Inr resp"
  shows "GetXml w uri v s =
           ((snd (xml_decode w (Body resp) v), fst (xml_decode w (Body resp) v)),
            emit [HttpDo (httpClient s) (Get uri), XmlDecode (fst (Body resp)), BodyClose] s)"
  using assms by (simp add: GetXml_def Let_def split: prod.split)

lemma PostJson_non200:
  assumes "json_encode w False obj = Inr buf"
    and "http_do w (httpClient s) (Post uri ''application/json;charset=utf-8'' buf) = Inr resp"
    and "StatusCode resp \<noteq> 200"
  shows "PostJson w uri obj s =
           ((None, Some (Errorf (''http post error : uri='' @ uri @ '' , statusCode=''
                                   @ itoa (StatusCode resp)))),
            emit [HttpDo (httpClient s) (Post uri ''application/json;charset=utf-8'' buf),
                  BodyClose] s)"
  using assms by (simp add: PostJson_def Let_def)

lemma PostJsonPtr_non200:
  assumes "json_encode w True obj = Inr buf"
    and "http_do w (httpClient s)
           (Post uri (if cts = [] then ''application/json;charset=utf-8'' else Join cts '';'') buf)
         = Inr resp"
    and "StatusCode resp \<noteq> 200"
  shows "PostJsonPtr w uri obj result cts s =
           ((Some (Errorf (''http post error : uri='' @ uri @ '' , statusCode=''
                             @ itoa (StatusCode resp))), result),
            emit [HttpDo (httpClient s)
                    (Post uri (if cts = [] then ''application/json;charset=utf-8''
                               else Join cts '';'') buf),
                  BodyClose] s)"
  using assms by (cases "cts = []") (simp_all add: PostJsonPtr_def Let_def)

lemma PostXmlPtr_non200:
  assumes "xml_encode w obj = Inr buf"
    and "http_do w (httpClient s) (Post uri ''application/xml;charset=utf-8'' buf) = Inr resp"
    and "StatusCode resp \<noteq> 200"
  shows "PostXmlPtr w uri obj result s =
           ((Some (Errorf (''http post error : uri='' @ uri @ '' , statusCode=''
                             @ itoa (StatusCode resp))), result),
            emit [HttpDo (httpClient s) (Post uri ''application/xml;charset=utf-8'' buf),
                  BodyClose] s)"
  using assms by (simp add: PostXmlPtr_def Let_def)

lemma GetFile_any_status:
  assumes "http_do w (httpClient s) (Get uri) = Inr resp"
    and "os_create w filename = None"
  shows "fst (GetFile w filename uri s) =
           (case snd (file_write w filename (fst (Body resp))) of
              Some e \<Rightarrow> Some e | None \<Rightarrow> snd (Body resp))"
    and "files (snd (GetFile w filename uri s)) =
           (files s)(filename \<mapsto> fst (file_write w filename (fst (Body resp))))"
    and "new_events s (snd (GetFile w filename uri s)) =
           [HttpDo (httpClient s) (Get uri), OsCreate filename,
            FileCopy filename (fst (Body resp)), FileClose filename, BodyClose]"
  using assms by (simp_all add: GetFile_def Let_def new_events_def split: prod.split)

text \<open>The loop makes the part calls of the fields in order, up to the first failure.\<close>

lemma write_fields_emit:
  "\<exists>evs. snd (write_fields w mw flds s) = emit evs s
         \<and> prefix evs (concat (map part_calls flds))
         \<and> (\<forall>mw'. fst (write_fields w mw flds s) = Inr mw'
               \<longrightarrow> evs = concat (map part_calls flds))"
proof (induction flds arbitrary: mw s)
  case Nil
  have "snd (write_fields w mw [] s) = emit [] s" by simp
  then show ?case by auto
next
  case (Cons field rest)
  show ?case
  proof (cases "mp_create_part w mw (field_header field)")
    case (Inl e)
    then have "snd (write_fields w mw (field # rest) s) = emit [CreatePart (field_header field)] s"
      and "fst (write_fields w mw (field # rest) s) = Inl e"
      by (simp_all add: Let_def)
    then show ?thesis by (auto simp add: part_calls_def)
  next
    case (Inr mw1)
    note cp = this
    show ?thesis
    proof (cases "mp_write w mw1 (Value field)")
      case (Inl e)
      with cp have "snd (write_fields w mw (field # rest) s) = emit (part_calls field) s"
        and "fst (write_fields w mw (field # rest) s) = Inl e"
        by (simp_all add: Let_def part_calls_def)
      then show ?thesis by auto
    next
      case (Inr mw2)
      with cp have eq: "write_fields w mw (field # rest) s
                      = write_fields w mw2 rest (emit (part_calls field) s)"
        by (simp add: Let_def part_calls_def)
      from Cons.IH [of mw2 "emit (part_calls field) s"]
      obtain evs where
        a: "snd (write_fields w mw2 rest (emit (part_calls field) s))
              = emit evs (emit (part_calls field) s)"
        and b: "prefix evs (concat (map part_calls rest))"
        and c: "\<forall>mw'. fst (write_fields w mw2 rest (emit (part_calls field) s)) = Inr mw'
                  \<longrightarrow> evs = concat (map part_calls rest)"
        by blast
      have "snd (write_fields w mw (field # rest) s) = emit (part_calls field @ evs) s"
        using eq a by simp
      moreover have "prefix (part_calls field @ evs) (concat (map part_calls (field # rest)))"
        using b by simp
      moreover have "\<forall>mw'. fst (write_fields w mw (field # rest) s) = Inr mw'
                  \<longrightarrow> part_calls field @ evs = concat (map part_calls (field # rest))"
        using c eq by simp
      ultimately show ?thesis by blast
    qed
  qed
qed

lemma part_calls_events:
  "e \<in> set (concat (map part_calls flds)) \<Longrightarrow> is_part_call e \<and> \<not> is_send e"
  by (induction flds) (auto simp add: part_calls_def)

lemma filter_prefix_part_calls:
  assumes "prefix evs (concat (map part_calls flds))"
  shows "filter is_part_call evs = evs" and "filter is_send evs = []"
proof -
  have "\<forall>e\<in>set evs. is_part_call e \<and> \<not> is_send e"
    using set_mono_prefix [OF assms] part_calls_events by blast
  then show "filter is_part_call evs = evs" and "filter is_send evs = []"
    by (simp_all add: filter_id_conv)
qed

text \<open>What \<open>PostMultipartForm\<close> does, by the outcome of the loop and of the request.\<close>

lemma PostMultipartForm_loop_fails:
  assumes "fst (write_fields w (mp_new w) flds s) = Inl e"
  shows "PostMultipartForm w flds uri s = ((None, Some e), snd (write_fields w (mp_new w) flds s))"
  using assms by (cases "write_fields w (mp_new w) flds s") (simp add: PostMultipartForm_def)

lemma PostMultipartForm_loop_ok:
  assumes "fst (write_fields w (mp_new w) flds s) = Inr mw"
  shows "new_events s (snd (PostMultipartForm w flds uri s)) =
           concat (map part_calls flds)
           @ [MultipartClose,
              HttpDo (httpClient s)
                (Post uri (mp_content_type w mw) (mp_bytes w (mp_close w mw)))]
           @ (case http_do w (httpClient s)
                     (Post uri (mp_content_type w mw) (mp_bytes w (mp_close w mw))) of
                Inl e \<Rightarrow> []
              | Inr resp \<Rightarrow> if StatusCode resp \<noteq> 200 then [BodyClose]
                             else [ReadAll, BodyClose])"
    and "fst (PostMultipartForm w flds uri s) =
           (case http_do w (httpClient s)
                     (Post uri (mp_content_type w mw) (mp_bytes w (mp_close w mw))) of
                Inl e \<Rightarrow> (None, Some e)
              | Inr resp \<Rightarrow> if StatusCode resp \<noteq> 200 then (None, None)
                             else (Some (fst (Body resp)), snd (Body resp)))"
proof -
  obtain evs where a: "snd (write_fields w (mp_new w) flds s) = emit evs s"
    and c: "evs = concat (map part_calls flds)"
    using write_fields_emit [of w "mp_new w" flds s] assms by blast
  have wf: "write_fields w (mp_new w) flds s = (Inr mw, emit (concat (map part_calls flds)) s)"
    using assms a c by (metis prod.collapse)
  show "new_events s (snd (PostMultipartForm w flds uri s)) =
           concat (map part_calls flds)
           @ [MultipartClose,
              HttpDo (httpClient s)
                (Post uri (mp_content_type w mw) (mp_bytes w (mp_close w mw)))]
           @ (case http_do w (httpClient s)
                     (Post uri (mp_content_type w mw) (mp_bytes w (mp_close w mw))) of
                Inl e \<Rightarrow> []
              | Inr resp \<Rightarrow> if StatusCode resp \<noteq> 200 then [BodyClose]
                             else [ReadAll, BodyClose])"
    by (simp add: PostMultipartForm_def wf Let_def split: sum.split)
  show "fst (PostMultipartForm w flds uri s) =
           (case http_do w (httpClient s)
                     (Post uri (mp_content_type w mw) (mp_bytes w (mp_close w mw))) of
                Inl e \<Rightarrow> (None, Some e)
              | Inr resp \<Rightarrow> if StatusCode resp \<noteq> 200 then (None, None)
                             else (Some (fst (Body resp)), snd (Body resp)))"
    by (simp add: PostMultipartForm_def wf Let_def ReadAll_body_def split: sum.split)
qed

lemma PostMultipartForm_loop_fails_events:
  assumes "fst (write_fields w (mp_new w) flds s) = Inl e"
  shows "prefix (new_events s (snd (PostMultipartForm w flds uri s)))
           (concat (map part_calls flds))"
proof -
  obtain evs where a: "snd (write_fields w (mp_new w) flds s) = emit evs s"
    and b: "prefix evs (concat (map part_calls flds))"
    using write_fields_emit [of w "mp_new w" flds s] by blast
  show ?thesis using PostMultipartForm_loop_fails [OF assms] a b by simp
qed

section \<open>The loop of \<open>PostMultipartForm\<close> against the specification's words\<close>

lemma itoa_3: "itoa 3 = ''3''"
  by code_simp

lemma field_header_spec: "field_header field = spec_part_header field"
  by (simp add: field_header_def header_Set_def spec_part_header_def)

lemma spec_add_part_Inl: "spec_add_part w (Inl e) field = Inl e"
  by (simp add: spec_add_part_def)

lemma spec_add_part_Inr:
  "spec_add_part w (Inr mw) field =
     (case mp_create_part w mw (spec_part_header field) of
        Inl e \<Rightarrow> Inl e
      | Inr mw1 \<Rightarrow> mp_write w mw1 (Value field))"
  by (simp add: spec_add_part_def)

lemma spec_add_part_failed: "foldl (spec_add_part w) (Inl e) flds = Inl e"
  by (induction flds) (simp_all add: spec_add_part_Inl)

text \<open>The loop computes the writer, or the error, that the specification's words give.\<close>

lemma write_fields_spec:
  "fst (write_fields w mw flds s) = foldl (spec_add_part w) (Inr mw) flds"
proof (induction flds arbitrary: mw s)
  case Nil
  show ?case by simp
next
  case (Cons field rest)
  show ?case
  proof (cases "mp_create_part w mw (spec_part_header field)")
    case (Inl e)
    then show ?thesis
      by (simp add: Let_def field_header_spec spec_add_part_Inr spec_add_part_failed)
  next
    case (Inr mw1)
    note cp = this
    show ?thesis
    proof (cases "mp_write w mw1 (Value field)")
      case (Inl e)
      with cp show ?thesis
        by (simp add: Let_def field_header_spec spec_add_part_Inr spec_add_part_failed)
    next
      case (Inr mw2)
      with cp show ?thesis
        using Cons.IH [of mw2]
        by (simp add: Let_def field_header_spec spec_add_part_Inr)
    qed
  qed
qed

text \<open>After the parts of some fields were made, the loop goes on with the fields left.\<close>

lemma write_fields_append:
  assumes "foldl (spec_add_part w) (Inr mw) pre = Inr mw0"
  shows "write_fields w mw (pre @ rest) s
           = write_fields w mw0 rest (emit (concat (map part_calls pre)) s)"
  using assms
proof (induction pre arbitrary: mw s)
  case Nil
  then show ?case by simp
next
  case (Cons field pre)
  show ?case
  proof (cases "mp_create_part w mw (spec_part_header field)")
    case (Inl e)
    then have False using Cons.prems
      by (simp add: spec_add_part_Inr spec_add_part_failed)
    then show ?thesis ..
  next
    case (Inr mw1)
    note cp = this
    show ?thesis
    proof (cases "mp_write w mw1 (Value field)")
      case (Inl e)
      with cp have False using Cons.prems
        by (simp add: spec_add_part_Inr spec_add_part_failed)
      then show ?thesis ..
    next
      case (Inr mw2)
      with cp have "foldl (spec_add_part w) (Inr mw2) pre = Inr mw0"
        using Cons.prems by (simp add: spec_add_part_Inr)
      from Cons.IH [OF this, of "emit (part_calls field) s"] cp Inr
      show ?thesis
        by (simp add: Let_def field_header_spec part_calls_def)
    qed
  qed
qed

section \<open>Frame of the setters\<close>

text \<open>
  Claim C9. \<open>SetTimeOut d\<close> sets the global timeout to \<open>d\<close> and leaves the proxy selector (and
  everything else) as it was; \<open>SetProxy p\<close> sets the proxy selector to \<open>p\<close> and leaves the
  timeout (and everything else) as it was.
\<close>

theorem setters_frame:
  "TimeOut (SetTimeOut d s) = d \<and> Proxy (SetTimeOut d s) = Proxy s
   \<and> files (SetTimeOut d s) = files s \<and> trace (SetTimeOut d s) = trace s
   \<and> Proxy (SetProxy p s) = p \<and> TimeOut (SetProxy p s) = TimeOut s
   \<and> files (SetProxy p s) = files s \<and> trace (SetProxy p s) = trace s"
  by (simp add: SetTimeOut_def SetProxy_def)

section \<open>\<open>GetBody\<close>\<close>

text \<open>
  Claim C3. When the GET of \<open>uri\<close> gets a response: with status 200 \<open>GetBody\<close> returns
  exactly the bytes of the response body (and the error, if any, that ended the reading of
  the body); with any other status it returns \<open>nil\<close> bytes and an error whose message
  holds the URI and the status code, and nothing of the body.
\<close>

theorem GetBody_status:
  assumes "http_do w (httpClient s) (Get uri) = Inr resp"
  shows "fst (GetBody w uri s) =
     (if StatusCode resp = 200 then (Some (fst (Body resp)), snd (Body resp))
      else (None, Some (Errorf (''http get err: uri='' @ uri @ '' , statusCode=''
                                 @ itoa (StatusCode resp)))))"
  using assms by (simp add: GetBody_def ReadAll_body_def Let_def)

theorem GetBody_status_witness:
  "fst (GetBody (demo_world 200) ''u'' init_state) = (Some ''ok'', None)
   \<and> fst (GetBody (demo_world 404) ''u'' init_state)
       = (None, Some (Errorf ''http get err: uri=u , statusCode=404''))"
proof -
  have a: "http_do (demo_world 200) (httpClient init_state) (Get ''u'')
             = Inr \<lparr>StatusCode = 200, Body = (''ok'', None)\<rparr>"
    by (simp add: demo_world_def)
  have b: "http_do (demo_world 404) (httpClient init_state) (Get ''u'')
             = Inr \<lparr>StatusCode = 404, Body = (''ok'', None)\<rparr>"
    by (simp add: demo_world_def)
  show ?thesis
    using GetBody_status [OF a] GetBody_status [OF b] by (simp add: itoa_404)
qed

section \<open>\<open>PostMultipartForm\<close> on a status other than 200\<close>

text \<open>
  Claim C2. For every list of fields and every URI, when \<open>PostMultipartForm\<close> made its
  POST, the transport answered it with a response, and the status of that response is not
  200, \<open>PostMultipartForm\<close> returns a \<open>nil\<close> body and a \<open>nil\<close> error.
\<close>

theorem PostMultipartForm_non200:
  assumes "HttpDo c req \<in> set (new_events s (snd (PostMultipartForm w flds uri s)))"
    and "http_do w c req = Inr resp"
    and "StatusCode resp \<noteq> 200"
  shows "fst (PostMultipartForm w flds uri s) = (None, None)"
proof (cases "fst (write_fields w (mp_new w) flds s)")
  case (Inl e)
  have "filter is_send (new_events s (snd (PostMultipartForm w flds uri s))) = []"
    using filter_prefix_part_calls(2) [OF PostMultipartForm_loop_fails_events [OF Inl]] .
  moreover have "is_send (HttpDo c req)" by simp
  ultimately show ?thesis using assms(1) by (metis filter_empty_conv)
next
  case (Inr mw)
  let ?req = "Post uri (mp_content_type w mw) (mp_bytes w (mp_close w mw))"
  have ev: "HttpDo c req \<in> set (concat (map part_calls flds)
              @ [MultipartClose, HttpDo (httpClient s) ?req]
              @ (case http_do w (httpClient s) ?req of
                   Inl e \<Rightarrow> []
                 | Inr resp \<Rightarrow> if StatusCode resp \<noteq> 200 then [BodyClose]
                                else [ReadAll, BodyClose]))"
    using assms(1) PostMultipartForm_loop_ok(1) [OF Inr, of uri] by simp
  have "HttpDo c req \<notin> set (concat (map part_calls flds))"
    using part_calls_events [of "HttpDo c req" flds] by auto
  with ev have "c = httpClient s \<and> req = ?req"
    by (auto split: sum.splits if_splits)
  then show ?thesis
    using PostMultipartForm_loop_ok(2) [OF Inr, of uri] assms(2,3) by simp
qed

theorem PostMultipartForm_non200_witness:
  "HttpDo (httpClient init_state)
       (Post ''u'' ''multipart/form-data; boundary=B'' ''--B;hi--B--'')
     \<in> set (new_events init_state
               (snd (PostMultipartForm (demo_world 404) [demo_field] ''u'' init_state)))
   \<and> http_do (demo_world 404) (httpClient init_state)
        (Post ''u'' ''multipart/form-data; boundary=B'' ''--B;hi--B--'')
       = Inr \<lparr>StatusCode = 404, Body = (''ok'', None)\<rparr>
   \<and> fst (PostMultipartForm (demo_world 404) [demo_field] ''u'' init_state) = (None, None)"
proof -
  have wf: "fst (write_fields (demo_world 404) (mp_new (demo_world 404)) [demo_field]
                   init_state) = Inr ''--B;hi''"
    by (simp add: demo_world_def demo_field_def Let_def)
  have a: "HttpDo (httpClient init_state)
       (Post ''u'' ''multipart/form-data; boundary=B'' ''--B;hi--B--'')
     \<in> set (new_events init_state
               (snd (PostMultipartForm (demo_world 404) [demo_field] ''u'' init_state)))"
    using PostMultipartForm_loop_ok(1) [OF wf, of "''u''"] by (simp add: demo_world_def)
  have b: "http_do (demo_world 404) (httpClient init_state)
        (Post ''u'' ''multipart/form-data; boundary=B'' ''--B;hi--B--'')
       = Inr \<lparr>StatusCode = 404, Body = (''ok'', None)\<rparr>"
    by (simp add: demo_world_def)
  have c: "StatusCode \<lparr>StatusCode = 404, Body = (''ok'', None)\<rparr> \<noteq> 200" by simp
  show ?thesis using a b PostMultipartForm_non200 [OF a b c] by simp
qed

section \<open>\<open>PostJson\<close> and \<open>PostJsonPtr\<close>: what is sent\<close>

text \<open>
  Claim C4. For every request object that the JSON encoder accepts, \<open>PostJson\<close> makes
  exactly one request: a POST to the URI with content type
  \<open>application/json;charset=utf-8\<close> whose body is the JSON encoding of the object made with
  HTML escaping switched off; and when the response has status 200 it returns the bytes of
  the response body.
\<close>

theorem PostJson_request:
  assumes "json_encode w False obj = Inr buf"
  shows "filter is_send (new_events s (snd (PostJson w uri obj s)))
           = [HttpDo (httpClient s) (Post uri ''application/json;charset=utf-8'' buf)]
         \<and> (http_do w (httpClient s) (Post uri ''application/json;charset=utf-8'' buf)
               = Inr resp \<and> StatusCode resp = 200
             \<longrightarrow> fst (PostJson w uri obj s) = (Some (fst (Body resp)), snd (Body resp)))"
proof (cases "http_do w (httpClient s) (Post uri ''application/json;charset=utf-8'' buf)")
  case (Inl e)
  then show ?thesis using assms by (simp add: PostJson_def Let_def)
next
  case (Inr r)
  then show ?thesis using assms by (simp add: PostJson_def Let_def ReadAll_body_def)
qed

theorem PostJson_request_witness:
  "json_encode (demo_world 200) False ''{}'' = Inr ''{}''
   \<and> filter is_send (new_events init_state (snd (PostJson (demo_world 200) ''u'' ''{}''
                                                  init_state)))
       = [HttpDo (httpClient init_state) (Post ''u'' ''application/json;charset=utf-8'' ''{}'')]
   \<and> fst (PostJson (demo_world 200) ''u'' ''{}'' init_state) = (Some ''ok'', None)"
proof -
  have enc: "json_encode (demo_world 200) False ''{}'' = Inr ''{}''"
    by (simp add: demo_world_def)
  have resp: "http_do (demo_world 200) (httpClient init_state)
                (Post ''u'' ''application/json;charset=utf-8'' ''{}'')
              = Inr \<lparr>StatusCode = 200, Body = (''ok'', None)\<rparr>"
    by (simp add: demo_world_def)
  show ?thesis
    using enc resp PostJson_request [OF enc, of init_state "''u''"
                      "\<lparr>StatusCode = 200, Body = (''ok'', None)\<rparr>"]
    by simp
qed

text \<open>
  Claim C5. For every call of \<open>PostJsonPtr\<close> whose object the JSON encoder accepts, the one
  request made is a POST whose body is the JSON encoding of the object made with HTML
  escaping left on, and whose content type is \<open>application/json;charset=utf-8\<close> when no
  content-type argument is given, and the given strings joined with \<open>;\<close> otherwise; and
  what \<open>PostJsonPtr\<close> returns is decided by the transport's answer to that very request.
\<close>

theorem PostJsonPtr_request:
  assumes "json_encode w True obj = Inr buf"
  shows "filter is_send (new_events s (snd (PostJsonPtr w uri obj result contentType s)))
           = [HttpDo (httpClient s)
                (Post uri (if contentType = [] then ''application/json;charset=utf-8''
                           else Join contentType '';'') buf)]
         \<and> fst (PostJsonPtr w uri obj result contentType s)
           = (case http_do w (httpClient s)
                     (Post uri (if contentType = [] then ''application/json;charset=utf-8''
                                else Join contentType '';'') buf) of
                Inl err \<Rightarrow> (Some err, result)
              | Inr resp \<Rightarrow>
                  if StatusCode resp \<noteq> 200 then
                    (Some (Errorf (''http post error : uri='' @ uri @ '' , statusCode=''
                                     @ itoa (StatusCode resp))), result)
                  else (snd (json_decode w (Body resp) result),
                        fst (json_decode w (Body resp) result)))"
proof (cases "http_do w (httpClient s)
                (Post uri (if contentType = [] then ''application/json;charset=utf-8''
                           else Join contentType '';'') buf)")
  case (Inl e)
  then show ?thesis using assms
    by (cases "contentType = []") (simp_all add: PostJsonPtr_def Let_def)
next
  case (Inr r)
  then show ?thesis using assms
    by (cases "contentType = []") (simp_all add: PostJsonPtr_def Let_def split: prod.split)
qed

theorem PostJsonPtr_request_witness:
  "json_encode (demo_world 200) True ''{}'' = Inr ''{}''
   \<and> filter is_send (new_events init_state
        (snd (PostJsonPtr (demo_world 200) ''u'' ''{}'' '''' [] init_state)))
       = [HttpDo (httpClient init_state) (Post ''u'' ''application/json;charset=utf-8'' ''{}'')]
   \<and> filter is_send (new_events init_state
        (snd (PostJsonPtr (demo_world 200) ''u'' ''{}'' ''''
                [''text/json'', ''charset=gbk''] init_state)))
       = [HttpDo (httpClient init_state) (Post ''u'' ''text/json;charset=gbk'' ''{}'')]
   \<and> fst (PostJsonPtr (demo_world 200) ''u'' ''{}'' '''' [] init_state) = (None, ''ok'')"
proof -
  have enc: "json_encode (demo_world 200) True ''{}'' = Inr ''{}''"
    by (simp add: demo_world_def)
  have resp: "\<And>req. http_do (demo_world 200) (httpClient init_state) req
                = Inr \<lparr>StatusCode = 200, Body = (''ok'', None)\<rparr>"
    by (simp add: demo_world_def)
  have dec: "json_decode (demo_world 200) (''ok'', None) '''' = (''ok'', None)"
    by (simp add: demo_world_def)
  show ?thesis
    using enc PostJsonPtr_request [OF enc, of init_state "''u''" "''''" "[]"]
      PostJsonPtr_request [OF enc, of init_state "''u''" "''''" "[''text/json'', ''charset=gbk'']"]
    by (simp add: resp dec)
qed

section \<open>Encoding errors\<close>

text \<open>
  Claim C6. When the encoding of the outgoing object fails, \<open>PostJson\<close>, \<open>PostJsonPtr\<close> and
  \<open>PostXmlPtr\<close> return that encoding error; the state is the one they started in and no
  call was made on any collaborator, so no HTTP request was sent.
\<close>

theorem encode_error_not_sent:
  "(json_encode w False obj = Inl e
      \<longrightarrow> PostJson w uri obj s = ((None, Some e), s)
          \<and> new_events s (snd (PostJson w uri obj s)) = [])
   \<and> (json_encode w True obj = Inl e
      \<longrightarrow> PostJsonPtr w uri obj result contentType s = ((Some e, result), s)
          \<and> new_events s (snd (PostJsonPtr w uri obj result contentType s)) = [])
   \<and> (xml_encode w obj = Inl e
      \<longrightarrow> PostXmlPtr w uri obj result s = ((Some e, result), s)
          \<and> new_events s (snd (PostXmlPtr w uri obj result s)) = [])"
  by (simp add: PostJson_def PostJsonPtr_def PostXmlPtr_def)

theorem encode_error_not_sent_witness:
  "json_encode ((demo_world 200)\<lparr>json_encode := \<lambda>esc obj. Inl (LibError ''unsupported'')\<rparr>)
       False ''x'' = Inl (LibError ''unsupported'')
   \<and> xml_encode ((demo_world 200)\<lparr>xml_encode := \<lambda>obj. Inl (LibError ''unsupported'')\<rparr>)
       ''x'' = Inl (LibError ''unsupported'')
   \<and> PostJson ((demo_world 200)\<lparr>json_encode := \<lambda>esc obj. Inl (LibError ''unsupported'')\<rparr>)
       ''u'' ''x'' init_state = ((None, Some (LibError ''unsupported'')), init_state)
   \<and> PostJsonPtr ((demo_world 200)\<lparr>json_encode := \<lambda>esc obj. Inl (LibError ''unsupported'')\<rparr>)
       ''u'' ''x'' ''r'' [] init_state = ((Some (LibError ''unsupported''), ''r''), init_state)
   \<and> PostXmlPtr ((demo_world 200)\<lparr>xml_encode := \<lambda>obj. Inl (LibError ''unsupported'')\<rparr>)
       ''u'' ''x'' ''r'' init_state = ((Some (LibError ''unsupported''), ''r''), init_state)"
  using encode_error_not_sent
          [of "(demo_world 200)\<lparr>json_encode := \<lambda>esc obj. Inl (LibError ''unsupported'')\<rparr>"
              "''x''" "LibError ''unsupported''" "''u''" init_state "''r''" "[]"]
        encode_error_not_sent
          [of "(demo_world 200)\<lparr>xml_encode := \<lambda>obj. Inl (LibError ''unsupported'')\<rparr>"
              "''x''" "LibError ''unsupported''" "''u''" init_state "''r''" "[]"]
  by (simp add: demo_world_def)

section \<open>\<open>PostFileBytes\<close>\<close>

text \<open>
  Claim C8. For every field name, file name, content type, payload and URI,
  \<open>PostFileBytes\<close> returns exactly what \<open>PostMultipartForm\<close> returns on the one-element
  list holding the field built from these arguments, and the same URI.
\<close>

theorem PostFileBytes_delegates:
  "PostFileBytes w fieldname filename contentType data uri s
     = PostMultipartForm w
         [\<lparr>Fieldname = fieldname, Value = data, ContentType = contentType,
           Filename = filename\<rparr>] uri s"
  by (simp add: PostFileBytes_def)

section \<open>\<open>GetFile\<close>: the file is created only after the response\<close>

text \<open>
  Claim C10. When the GET fails in the transport, \<open>GetFile\<close> returns that error, the files
  are as they were and the request is the only call made. In every run the request is the
  first call made, no \<open>os.Create\<close> comes before it, and the files change only when the
  transport gave a response.
\<close>

theorem GetFile_transport_error:
  "(http_do w (httpClient s) (Get uri) = Inl e
      \<longrightarrow> fst (GetFile w filename uri s) = Some e
          \<and> files (snd (GetFile w filename uri s)) = files s
          \<and> new_events s (snd (GetFile w filename uri s)) = [HttpDo (httpClient s) (Get uri)])
   \<and> take 1 (new_events s (snd (GetFile w filename uri s))) = [HttpDo (httpClient s) (Get uri)]
   \<and> create_after_send (new_events s (snd (GetFile w filename uri s)))
   \<and> (files (snd (GetFile w filename uri s)) \<noteq> files s
        \<longrightarrow> (\<exists>resp. http_do w (httpClient s) (Get uri) = Inr resp))"
proof (cases "http_do w (httpClient s) (Get uri)")
  case (Inl err)
  then show ?thesis by (simp add: GetFile_def Let_def)
next
  case (Inr resp)
  then show ?thesis
    by (cases "os_create w filename")
       (simp_all add: GetFile_def Let_def new_events_def split: prod.split)
qed

theorem GetFile_transport_error_witness:
  "http_do ((demo_world 200)\<lparr>http_do := \<lambda>c r. Inl (LibError ''timeout'')\<rparr>)
       (httpClient init_state) (Get ''u'') = Inl (LibError ''timeout'')
   \<and> fst (GetFile ((demo_world 200)\<lparr>http_do := \<lambda>c r. Inl (LibError ''timeout'')\<rparr>)
            ''f'' ''u'' init_state) = Some (LibError ''timeout'')
   \<and> files (snd (GetFile ((demo_world 200)\<lparr>http_do := \<lambda>c r. Inl (LibError ''timeout'')\<rparr>)
            ''f'' ''u'' init_state)) ''f'' = None
   \<and> files (snd (GetFile (demo_world 200) ''f'' ''u'' init_state)) ''f'' = Some ''ok''
   \<and> (\<exists>resp. http_do (demo_world 200) (httpClient init_state) (Get ''u'') = Inr resp)"
proof -
  have ne: "files (snd (GetFile (demo_world 200) ''f'' ''u'' init_state)) ''f'' = Some ''ok''"
    by (simp add: GetFile_def demo_world_def Let_def init_state_def)
  then have "files (snd (GetFile (demo_world 200) ''f'' ''u'' init_state)) \<noteq> files init_state"
    by (auto simp add: init_state_def)
  then show ?thesis
    using ne GetFile_transport_error
          [of "(demo_world 200)\<lparr>http_do := \<lambda>c r. Inl (LibError ''timeout'')\<rparr>"
              init_state "''u''" "LibError ''timeout''" "''f''"]
        GetFile_transport_error
          [of "demo_world 200" init_state "''u''" "LibError ''timeout''" "''f''"]
    by (simp add: init_state_def)
qed

section \<open>\<open>PostMultipartForm\<close>: the parts\<close>

text \<open>
  Claim C7. For every ordered list of fields, \<open>PostMultipartForm\<close> encodes one part per
  field, in the given order, each with the header \<open>Content-Disposition: form-data;
  name="<name>"; filename="<filename>"; filelength=<byte length of the value>\<close> and
  \<open>Content-Type: <contentType>\<close>, followed by the raw bytes of the field: the header the
  code builds is the one of the specification; when the parts of all the fields can be
  made, the one request sent is the POST whose content type and body are those of the
  writer that holds exactly these parts, made in this order on one new writer and then
  closed, the calls on the writer come before the request, and the result is what the
  transport answers to that request. When making a part fails, at \<open>CreatePart\<close> or at the
  copy of the bytes, after the parts of the earlier fields were made, that error is
  returned at once: no later field is touched and no request is sent.
\<close>

theorem multipart_parts:
  "field_header field = spec_part_header field
   \<and> prefix (filter is_part_call (new_events s (snd (PostMultipartForm w flds uri s))))
        (concat (map part_calls flds))
   \<and> (spec_encode_parts w flds = Inr mw
        \<longrightarrow> filter is_part_call (new_events s (snd (PostMultipartForm w flds uri s)))
              = concat (map part_calls flds)
            \<and> filter is_send (new_events s (snd (PostMultipartForm w flds uri s)))
              = [HttpDo (httpClient s)
                   (Post uri (mp_content_type w mw) (mp_bytes w (mp_close w mw)))]
            \<and> prefix (concat (map part_calls flds)
                       @ [MultipartClose,
                          HttpDo (httpClient s)
                            (Post uri (mp_content_type w mw) (mp_bytes w (mp_close w mw)))])
                (new_events s (snd (PostMultipartForm w flds uri s)))
            \<and> fst (PostMultipartForm w flds uri s)
              = (case http_do w (httpClient s)
                        (Post uri (mp_content_type w mw) (mp_bytes w (mp_close w mw))) of
                   Inl err \<Rightarrow> (None, Some err)
                 | Inr resp \<Rightarrow> if StatusCode resp \<noteq> 200 then (None, None)
                                else (Some (fst (Body resp)), snd (Body resp))))
   \<and> (spec_encode_parts w flds = Inl e
        \<longrightarrow> fst (PostMultipartForm w flds uri s) = (None, Some e)
            \<and> filter is_send (new_events s (snd (PostMultipartForm w flds uri s))) = [])
   \<and> (spec_encode_parts w pre = Inr mw0
        \<and> mp_create_part w mw0 (spec_part_header f) = Inl e1
        \<longrightarrow> PostMultipartForm w (pre @ f # post) uri s
              = ((None, Some e1),
                 emit (concat (map part_calls pre) @ [CreatePart (spec_part_header f)]) s))
   \<and> (spec_encode_parts w pre = Inr mw0
        \<and> mp_create_part w mw0 (spec_part_header f) = Inr mw1
        \<and> mp_write w mw1 (Value f) = Inl e2
        \<longrightarrow> PostMultipartForm w (pre @ f # post) uri s
              = ((None, Some e2),
                 emit (concat (map part_calls pre)
                       @ [CreatePart (spec_part_header f), PartWrite (Value f)]) s))"
proof -
  let ?evs = "new_events s (snd (PostMultipartForm w flds uri s))"
  have wf: "fst (write_fields w (mp_new w) flds s) = spec_encode_parts w flds"
    by (simp add: write_fields_spec spec_encode_parts_def)
  have fails: "prefix ?evs (concat (map part_calls flds))
               \<and> fst (PostMultipartForm w flds uri s) = (None, Some e')"
    if "spec_encode_parts w flds = Inl e'" for e'
  proof -
    have l: "fst (write_fields w (mp_new w) flds s) = Inl e'"
      using wf that by simp
    show ?thesis
      using PostMultipartForm_loop_fails_events [OF l] PostMultipartForm_loop_fails [OF l]
      by simp
  qed
  have ok: "filter is_part_call ?evs = concat (map part_calls flds)
            \<and> filter is_send ?evs
              = [HttpDo (httpClient s)
                   (Post uri (mp_content_type w mw') (mp_bytes w (mp_close w mw')))]
            \<and> prefix (concat (map part_calls flds)
                     @ [MultipartClose,
                        HttpDo (httpClient s)
                          (Post uri (mp_content_type w mw') (mp_bytes w (mp_close w mw')))])
                 ?evs
            \<and> fst (PostMultipartForm w flds uri s)
              = (case http_do w (httpClient s)
                        (Post uri (mp_content_type w mw') (mp_bytes w (mp_close w mw'))) of
                   Inl err \<Rightarrow> (None, Some err)
                 | Inr resp \<Rightarrow> if StatusCode resp \<noteq> 200 then (None, None)
                                else (Some (fst (Body resp)), snd (Body resp)))"
    if "spec_encode_parts w flds = Inr mw'" for mw'
  proof -
    have r: "fst (write_fields w (mp_new w) flds s) = Inr mw'"
      using wf that by simp
    have "\<exists>rest. ?evs = concat (map part_calls flds)
                @ [MultipartClose,
                   HttpDo (httpClient s)
                     (Post uri (mp_content_type w mw') (mp_bytes w (mp_close w mw')))]
                @ rest \<and> filter is_part_call rest = [] \<and> filter is_send rest = []"
      using PostMultipartForm_loop_ok(1) [OF r, of uri]
      by (cases "http_do w (httpClient s)
                   (Post uri (mp_content_type w mw') (mp_bytes w (mp_close w mw')))") simp_all
    then obtain rest where ev: "?evs = concat (map part_calls flds)
                @ [MultipartClose,
                   HttpDo (httpClient s)
                     (Post uri (mp_content_type w mw') (mp_bytes w (mp_close w mw')))]
                @ rest"
      and nop: "filter is_part_call rest = []" and nos: "filter is_send rest = []"
      by blast
    have pc: "filter is_part_call (concat (map part_calls flds)) = concat (map part_calls flds)"
      and ps: "filter is_send (concat (map part_calls flds)) = []"
      using filter_prefix_part_calls [of "concat (map part_calls flds)" flds] by simp_all
    have "filter is_part_call ?evs = concat (map part_calls flds)"
      using pc nop by (simp add: ev)
    moreover have "filter is_send ?evs
              = [HttpDo (httpClient s)
                   (Post uri (mp_content_type w mw') (mp_bytes w (mp_close w mw')))]"
      using ps nos by (simp add: ev)
    moreover have "prefix (concat (map part_calls flds)
                     @ [MultipartClose,
                        HttpDo (httpClient s)
                          (Post uri (mp_content_type w mw') (mp_bytes w (mp_close w mw')))])
                 ?evs"
      by (simp add: ev)
    ultimately show ?thesis
      using PostMultipartForm_loop_ok(2) [OF r, of uri] by simp
  qed
  have pre: "prefix (filter is_part_call ?evs) (concat (map part_calls flds))"
  proof (cases "spec_encode_parts w flds")
    case (Inl e')
    then show ?thesis
      using fails [OF Inl] filter_prefix_part_calls(1) [of ?evs flds] by simp
  next
    case (Inr mw')
    then show ?thesis using ok [OF Inr] by simp
  qed
  have nosend: "filter is_send ?evs = []" if "spec_encode_parts w flds = Inl e"
    using fails [OF that] filter_prefix_part_calls(2) [of ?evs flds] by simp
  have c1: "PostMultipartForm w (pre @ f # post) uri s
              = ((None, Some e1),
                 emit (concat (map part_calls pre) @ [CreatePart (spec_part_header f)]) s)"
    if "spec_encode_parts w pre = Inr mw0"
      and "mp_create_part w mw0 (spec_part_header f) = Inl e1"
  proof -
    have "foldl (spec_add_part w) (Inr (mp_new w)) pre = Inr mw0"
      using that(1) by (simp add: spec_encode_parts_def)
    from write_fields_append [OF this, of "f # post" s] that(2)
    have "write_fields w (mp_new w) (pre @ f # post) s
            = (Inl e1, emit (concat (map part_calls pre) @ [CreatePart (spec_part_header f)]) s)"
      by (simp add: Let_def field_header_spec)
    then show ?thesis by (simp add: PostMultipartForm_def)
  qed
  have c2: "PostMultipartForm w (pre @ f # post) uri s
              = ((None, Some e2),
                 emit (concat (map part_calls pre)
                       @ [CreatePart (spec_part_header f), PartWrite (Value f)]) s)"
    if "spec_encode_parts w pre = Inr mw0"
      and "mp_create_part w mw0 (spec_part_header f) = Inr mw1"
      and "mp_write w mw1 (Value f) = Inl e2"
  proof -
    have "foldl (spec_add_part w) (Inr (mp_new w)) pre = Inr mw0"
      using that(1) by (simp add: spec_encode_parts_def)
    from write_fields_append [OF this, of "f # post" s] that(2,3)
    have "write_fields w (mp_new w) (pre @ f # post) s
            = (Inl e2, emit (concat (map part_calls pre)
                       @ [CreatePart (spec_part_header f), PartWrite (Value f)]) s)"
      by (simp add: Let_def field_header_spec)
    then show ?thesis by (simp add: PostMultipartForm_def)
  qed
  show ?thesis
    using field_header_spec [of field] pre ok fails nosend c1 c2 by blast
qed

theorem multipart_parts_witness:
  \<open>spec_encode_parts render_world [demo_field, demo_field2]
     = Inr (''--B[Content-Disposition: form-data; name="f1"; filename="a.txt"; filelength=2;''
            @ ''Content-Type: text/plain;]hi''
            @ ''--B[Content-Disposition: form-data; name="f2"; filename=""; filelength=3;''
            @ ''Content-Type: text/plain;]yo!'')
   \<and> filter is_send (new_events init_state
        (snd (PostMultipartForm render_world [demo_field, demo_field2] ''u'' init_state)))
       = [HttpDo (httpClient init_state)
            (Post ''u'' ''multipart/form-data; boundary=B''
               (''--B[Content-Disposition: form-data; name="f1"; filename="a.txt"; filelength=2;''
                @ ''Content-Type: text/plain;]hi''
                @ ''--B[Content-Disposition: form-data; name="f2"; filename=""; filelength=3;''
                @ ''Content-Type: text/plain;]yo!--B--''))]
   \<and> fst (PostMultipartForm render_world [demo_field, demo_field2] ''u'' init_state)
       = (Some ''ok'', None)
   \<and> spec_encode_parts full_writer_world [demo_field, demo_field2] = Inl (LibError ''full'')
   \<and> mp_create_part full_writer_world (mp_new full_writer_world) (spec_part_header demo_field)
       = Inl (LibError ''full'')
   \<and> PostMultipartForm full_writer_world [demo_field, demo_field2] ''u'' init_state
       = ((None, Some (LibError ''full'')),
          emit [CreatePart (spec_part_header demo_field)] init_state)
   \<and> filter is_send (new_events init_state
        (snd (PostMultipartForm full_writer_world [demo_field, demo_field2] ''u'' init_state)))
       = []
   \<and> mp_write short_write_world
        (''--B[Content-Disposition: form-data; name="f1"; filename="a.txt"; filelength=2;''
         @ ''Content-Type: text/plain;]hi''
         @ ''--B[Content-Disposition: form-data; name="f2"; filename=""; filelength=3;''
         @ ''Content-Type: text/plain;]'') (Value demo_field2)
       = Inl (LibError ''short write'')
   \<and> PostMultipartForm short_write_world [demo_field, demo_field2, demo_field] ''u'' init_state
       = ((None, Some (LibError ''short write'')),
          emit (part_calls demo_field @ part_calls demo_field2) init_state)\<close>
proof -
  let ?p1 = \<open>''--B[Content-Disposition: form-data; name="f1"; filename="a.txt"; filelength=2;''
            @ ''Content-Type: text/plain;]hi''\<close>
  let ?h2 = \<open>?p1 @ ''--B[Content-Disposition: form-data; name="f2"; filename=""; filelength=3;''
            @ ''Content-Type: text/plain;]''\<close>
  let ?p2 = "?h2 @ ''yo!''"
  have h1: \<open>spec_part_header demo_field =
     [(''Content-Disposition'', [''form-data; name="f1"; filename="a.txt"; filelength=2'']),
      (''Content-Type'', [''text/plain''])]\<close>
    by (simp add: spec_part_header_def demo_field_def itoa_2)
  have h2: \<open>spec_part_header demo_field2 =
     [(''Content-Disposition'', [''form-data; name="f2"; filename=""; filelength=3'']),
      (''Content-Type'', [''text/plain''])]\<close>
    by (simp add: spec_part_header_def demo_field2_def itoa_3)
  have v: "Value demo_field = ''hi''" "Value demo_field2 = ''yo!''"
    by (simp_all add: demo_field_def demo_field2_def)
  have enc: "spec_encode_parts render_world [demo_field, demo_field2] = Inr ?p2"
    by (simp add: spec_encode_parts_def spec_add_part_Inr h1 h2 v render_world_def
          demo_world_def)
  have encf: "spec_encode_parts full_writer_world [demo_field, demo_field2]
                = Inl (LibError ''full'')"
    by (simp add: spec_encode_parts_def spec_add_part_Inr spec_add_part_Inl
          full_writer_world_def demo_world_def)
  have pre0: "spec_encode_parts full_writer_world [] = Inr (mp_new full_writer_world)"
    by (simp add: spec_encode_parts_def)
  have cf: "mp_create_part full_writer_world (mp_new full_writer_world)
              (spec_part_header demo_field) = Inl (LibError ''full'')"
    by (simp add: full_writer_world_def demo_world_def)
  have pre1: "spec_encode_parts short_write_world [demo_field] = Inr ?p1"
    by (simp add: spec_encode_parts_def spec_add_part_Inr h1 v short_write_world_def
          render_world_def demo_world_def)
  have cs: "mp_create_part short_write_world ?p1 (spec_part_header demo_field2) = Inr ?h2"
    by (simp add: h2 short_write_world_def render_world_def demo_world_def)
  have ws: "mp_write short_write_world ?h2 (Value demo_field2) = Inl (LibError ''short write'')"
    by (simp add: v short_write_world_def)
  note good = multipart_parts [of demo_field init_state render_world "[demo_field, demo_field2]"
      "''u''" ?p2 "LibError ''full''" "[]" "[]" demo_field "LibError ''full''" "[]" "[]"
      "LibError ''full''"]
  note full = multipart_parts [of demo_field init_state full_writer_world
      "[demo_field, demo_field2]" "''u''" ?p2 "LibError ''full''" "[]"
      "mp_new full_writer_world" demo_field "LibError ''full''" "[demo_field2]" "[]"
      "LibError ''full''"]
  note short = multipart_parts [of demo_field init_state short_write_world
      "[demo_field, demo_field2]" "''u''" ?p2 "LibError ''full''" "[demo_field]"
      ?p1 demo_field2 "LibError ''full''" "[demo_field]" ?h2 "LibError ''short write''"]
  have g: "filter is_send (new_events init_state
        (snd (PostMultipartForm render_world [demo_field, demo_field2] ''u'' init_state)))
       = [HttpDo (httpClient init_state)
            (Post ''u'' (mp_content_type render_world ?p2)
               (mp_bytes render_world (mp_close render_world ?p2)))]
     \<and> fst (PostMultipartForm render_world [demo_field, demo_field2] ''u'' init_state)
       = (case http_do render_world (httpClient init_state)
                 (Post ''u'' (mp_content_type render_world ?p2)
                    (mp_bytes render_world (mp_close render_world ?p2))) of
            Inl err \<Rightarrow> (None, Some err)
          | Inr resp \<Rightarrow> if StatusCode resp \<noteq> 200 then (None, None)
                         else (Some (fst (Body resp)), snd (Body resp)))"
    using good enc by blast
  have g': "filter is_send (new_events init_state
        (snd (PostMultipartForm render_world [demo_field, demo_field2] ''u'' init_state)))
       = [HttpDo (httpClient init_state)
            (Post ''u'' ''multipart/form-data; boundary=B'' (?p2 @ ''--B--''))]
     \<and> fst (PostMultipartForm render_world [demo_field, demo_field2] ''u'' init_state)
       = (Some ''ok'', None)"
    using g by (simp add: render_world_def demo_world_def)
  have f1: "PostMultipartForm full_writer_world ([] @ demo_field # [demo_field2]) ''u'' init_state
       = ((None, Some (LibError ''full'')),
          emit (concat (map part_calls []) @ [CreatePart (spec_part_header demo_field)])
            init_state)"
    using full pre0 cf by blast
  have f2: "filter is_send (new_events init_state
        (snd (PostMultipartForm full_writer_world [demo_field, demo_field2] ''u'' init_state)))
       = []"
    using full encf by blast
  have s1: "PostMultipartForm short_write_world ([demo_field] @ demo_field2 # [demo_field])
              ''u'' init_state
       = ((None, Some (LibError ''short write'')),
          emit (concat (map part_calls [demo_field])
                @ [CreatePart (spec_part_header demo_field2), PartWrite (Value demo_field2)])
            init_state)"
    using short pre1 cs ws by blast
  have f1': "PostMultipartForm full_writer_world [demo_field, demo_field2] ''u'' init_state
       = ((None, Some (LibError ''full'')),
          emit [CreatePart (spec_part_header demo_field)] init_state)"
    using f1 by simp
  have s1': "PostMultipartForm short_write_world [demo_field, demo_field2, demo_field] ''u''
               init_state
       = ((None, Some (LibError ''short write'')),
          emit (part_calls demo_field @ part_calls demo_field2) init_state)"
    using s1 by (simp add: part_calls_def field_header_spec)
  show ?thesis
    using enc g' encf cf f1' f2 ws s1' by simp
qed

section \<open>Responses with a status other than 200\<close>

text \<open>
  Claim C1 says that on a response whose status is not 200 each of \<open>GetJson\<close>, \<open>GetXml\<close>,
  \<open>PostJson\<close>, \<open>PostJsonPtr\<close>, \<open>PostXmlPtr\<close>, \<open>PostFileBytes\<close> and \<open>GetFile\<close> returns an
  error carrying the status code. On a 404 response with body \<open>ok\<close>: \<open>GetJson\<close> decodes the
  body and returns no error, so does \<open>GetXml\<close>, \<open>GetFile\<close> writes the body to the file and
  returns no error, and \<open>PostFileBytes\<close> returns no body and no error.
\<close>

theorem status_check_counterexample:
  "http_do (demo_world 404) (httpClient init_state) (Get ''u'')
     = Inr \<lparr>StatusCode = 404, Body = (''ok'', None)\<rparr>
   \<and> fst (GetJson (demo_world 404) ''u'' '''' init_state) = (None, ''ok'')
   \<and> new_events init_state (snd (GetJson (demo_world 404) ''u'' '''' init_state))
       = [HttpDo (httpClient init_state) (Get ''u''), JsonDecode ''ok'', BodyClose]
   \<and> fst (GetXml (demo_world 404) ''u'' '''' init_state) = (None, ''ok'')
   \<and> fst (GetFile (demo_world 404) ''f'' ''u'' init_state) = None
   \<and> files (snd (GetFile (demo_world 404) ''f'' ''u'' init_state)) ''f'' = Some ''ok''
   \<and> fst (PostFileBytes (demo_world 404) ''f1'' ''a.txt'' ''text/plain'' ''hi'' ''u''
            init_state) = (None, None)"
proof -
  have get: "http_do (demo_world 404) (httpClient init_state) (Get ''u'')
     = Inr \<lparr>StatusCode = 404, Body = (''ok'', None)\<rparr>"
    by (simp add: demo_world_def)
  have j: "fst (GetJson (demo_world 404) ''u'' '''' init_state) = (None, ''ok'')"
    "new_events init_state (snd (GetJson (demo_world 404) ''u'' '''' init_state))
       = [HttpDo (httpClient init_state) (Get ''u''), JsonDecode ''ok'', BodyClose]"
    using GetJson_any_status [OF get, of "''''"] by (simp_all add: demo_world_def)
  have x: "fst (GetXml (demo_world 404) ''u'' '''' init_state) = (None, ''ok'')"
    using GetXml_any_status [OF get, of "''''"] by (simp add: demo_world_def)
  have cr: "os_create (demo_world 404) ''f'' = None"
    by (simp add: demo_world_def)
  have f: "fst (GetFile (demo_world 404) ''f'' ''u'' init_state) = None"
    "files (snd (GetFile (demo_world 404) ''f'' ''u'' init_state)) ''f'' = Some ''ok''"
    using GetFile_any_status(1,2) [OF get cr] by (simp_all add: demo_world_def)
  have wf: "fst (write_fields (demo_world 404) (mp_new (demo_world 404))
                   [\<lparr>Fieldname = ''f1'', Value = ''hi'', ContentType = ''text/plain'',
                      Filename = ''a.txt''\<rparr>] init_state) = Inr ''--B;hi''"
    by (simp add: demo_world_def Let_def)
  have p: "fst (PostFileBytes (demo_world 404) ''f1'' ''a.txt'' ''text/plain'' ''hi'' ''u''
            init_state) = (None, None)"
    using PostMultipartForm_loop_ok(2) [OF wf, of "''u''"]
    by (simp add: PostFileBytes_def demo_world_def)
  show ?thesis using get j x f p by blast
qed

text \<open>
  Claim C1, amended. On a response whose status is not 200, \<open>PostJson\<close>, \<open>PostJsonPtr\<close> and
  \<open>PostXmlPtr\<close> return the error made by \<open>fmt.Errorf\<close> from the URI and the status code,
  leave the caller's target as it was and make no decode of the response body.
  \<open>GetJson\<close> and \<open>GetXml\<close> do not look at the status: they return what decoding the
  response body gives. \<open>GetFile\<close> does not look at the status: when the file can be
  created it holds what was written of the response body, and the error of the copy is
  returned.
\<close>

theorem status_check_amended:
  assumes "StatusCode resp \<noteq> 200"
  shows
  "(json_encode w False obj = Inr buf
      \<and> http_do w (httpClient s) (Post uri ''application/json;charset=utf-8'' buf) = Inr resp
     \<longrightarrow> fst (PostJson w uri obj s)
           = (None, Some (Errorf (''http post error : uri='' @ uri @ '' , statusCode=''
                                    @ itoa (StatusCode resp))))
         \<and> filter is_decode (new_events s (snd (PostJson w uri obj s))) = [])
   \<and> (json_encode w True obj = Inr buf
      \<and> http_do w (httpClient s)
           (Post uri (if contentType = [] then ''application/json;charset=utf-8''
                      else Join contentType '';'') buf) = Inr resp
     \<longrightarrow> fst (PostJsonPtr w uri obj result contentType s)
           = (Some (Errorf (''http post error : uri='' @ uri @ '' , statusCode=''
                              @ itoa (StatusCode resp))), result)
         \<and> filter is_decode
             (new_events s (snd (PostJsonPtr w uri obj result contentType s))) = [])
   \<and> (xml_encode w obj = Inr buf
      \<and> http_do w (httpClient s) (Post uri ''application/xml;charset=utf-8'' buf) = Inr resp
     \<longrightarrow> fst (PostXmlPtr w uri obj result s)
           = (Some (Errorf (''http post error : uri='' @ uri @ '' , statusCode=''
                              @ itoa (StatusCode resp))), result)
         \<and> filter is_decode (new_events s (snd (PostXmlPtr w uri obj result s))) = [])
   \<and> (http_do w (httpClient s) (Get uri) = Inr resp
     \<longrightarrow> fst (GetJson w uri v s)
           = (snd (json_decode w (Body resp) v), fst (json_decode w (Body resp) v))
         \<and> fst (GetXml w uri v s)
           = (snd (xml_decode w (Body resp) v), fst (xml_decode w (Body resp) v))
         \<and> (os_create w filename = None
             \<longrightarrow> fst (GetFile w filename uri s)
                   = (case snd (file_write w filename (fst (Body resp))) of
                        Some e \<Rightarrow> Some e | None \<Rightarrow> snd (Body resp))
                 \<and> files (snd (GetFile w filename uri s))
                   = (files s)(filename \<mapsto> fst (file_write w filename (fst (Body resp))))))"
proof -
  have a: "fst (PostJson w uri obj s)
           = (None, Some (Errorf (''http post error : uri='' @ uri @ '' , statusCode=''
                                    @ itoa (StatusCode resp))))
         \<and> filter is_decode (new_events s (snd (PostJson w uri obj s))) = []"
    if "json_encode w False obj = Inr buf"
      and "http_do w (httpClient s) (Post uri ''application/json;charset=utf-8'' buf) = Inr resp"
    using PostJson_non200 [OF that assms] by simp
  have b: "fst (PostJsonPtr w uri obj result contentType s)
           = (Some (Errorf (''http post error : uri='' @ uri @ '' , statusCode=''
                              @ itoa (StatusCode resp))), result)
         \<and> filter is_decode
             (new_events s (snd (PostJsonPtr w uri obj result contentType s))) = []"
    if "json_encode w True obj = Inr buf"
      and "http_do w (httpClient s)
           (Post uri (if contentType = [] then ''application/json;charset=utf-8''
                      else Join contentType '';'') buf) = Inr resp"
    using PostJsonPtr_non200 [OF that assms] by simp
  have c: "fst (PostXmlPtr w uri obj result s)
           = (Some (Errorf (''http post error : uri='' @ uri @ '' , statusCode=''
                              @ itoa (StatusCode resp))), result)
         \<and> filter is_decode (new_events s (snd (PostXmlPtr w uri obj result s))) = []"
    if "xml_encode w obj = Inr buf"
      and "http_do w (httpClient s) (Post uri ''application/xml;charset=utf-8'' buf) = Inr resp"
    using PostXmlPtr_non200 [OF that assms] by simp
  have d: "fst (GetJson w uri v s)
           = (snd (json_decode w (Body resp) v), fst (json_decode w (Body resp) v))
         \<and> fst (GetXml w uri v s)
           = (snd (xml_decode w (Body resp) v), fst (xml_decode w (Body resp) v))"
    if "http_do w (httpClient s) (Get uri) = Inr resp"
    using GetJson_any_status [OF that] GetXml_any_status [OF that] by simp
  have e: "fst (GetFile w filename uri s)
                   = (case snd (file_write w filename (fst (Body resp))) of
                        Some e \<Rightarrow> Some e | None \<Rightarrow> snd (Body resp))
                 \<and> files (snd (GetFile w filename uri s))
                   = (files s)(filename \<mapsto> fst (file_write w filename (fst (Body resp))))"
    if "http_do w (httpClient s) (Get uri) = Inr resp" and "os_create w filename = None"
    using GetFile_any_status(1,2) [OF that] by simp
  show ?thesis using a b c d e by blast
qed

theorem status_check_amended_witness:
  "StatusCode \<lparr>StatusCode = 404, Body = (''ok'', None)\<rparr> \<noteq> 200
   \<and> fst (PostJson (demo_world 404) ''u'' ''{}'' init_state)
       = (None, Some (Errorf ''http post error : uri=u , statusCode=404''))
   \<and> filter is_decode (new_events init_state
        (snd (PostJson (demo_world 404) ''u'' ''{}'' init_state))) = []
   \<and> fst (PostJsonPtr (demo_world 404) ''u'' ''{}'' ''r'' [] init_state)
       = (Some (Errorf ''http post error : uri=u , statusCode=404''), ''r'')
   \<and> fst (PostXmlPtr (demo_world 404) ''u'' ''{}'' ''r'' init_state)
       = (Some (Errorf ''http post error : uri=u , statusCode=404''), ''r'')
   \<and> fst (GetJson (demo_world 404) ''u'' ''r'' init_state) = (None, ''ok'')
   \<and> fst (GetXml (demo_world 404) ''u'' ''r'' init_state) = (None, ''ok'')
   \<and> fst (GetFile (demo_world 404) ''f'' ''u'' init_state) = None
   \<and> files (snd (GetFile (demo_world 404) ''f'' ''u'' init_state)) ''f'' = Some ''ok''"
proof -
  have st: "StatusCode \<lparr>StatusCode = 404, Body = (''ok'', None)\<rparr> \<noteq> 200" by simp
  have h: "json_encode (demo_world 404) False ''{}'' = Inr ''{}''"
    "json_encode (demo_world 404) True ''{}'' = Inr ''{}''"
    "xml_encode (demo_world 404) ''{}'' = Inr ''{}''"
    "\<And>req. http_do (demo_world 404) (httpClient init_state) req
       = Inr \<lparr>StatusCode = 404, Body = (''ok'', None)\<rparr>"
    "os_create (demo_world 404) ''f'' = None"
    by (simp_all add: demo_world_def)
  have dec: "json_decode (demo_world 404) (''ok'', None) ''r'' = (''ok'', None)"
    "xml_decode (demo_world 404) (''ok'', None) ''r'' = (''ok'', None)"
    "file_write (demo_world 404) ''f'' ''ok'' = (''ok'', None)"
    by (simp_all add: demo_world_def)
  show ?thesis
    using st status_check_amended [OF st, of "demo_world 404" "''{}''" "''{}''" init_state "''u''"
                                 "[]" "''r''" "''r''" "''f''"]
    by (simp add: h dec itoa_404)
qed

end
